theory Spec2Isabelle
  imports Complex_Main
begin

section \<open>JavaScript numbers and operators\<close>

text \<open>
  The program is \<^verbatim>\<open>src/index.js\<close>. Its numbers are JavaScript Numbers, that is IEEE 754
  doubles. The numeric code is embedded twice.

  The exact embedding models a Number as a real number with exact arithmetic. It carries
  the statements on which rounding has no bearing: the step constants, the unit case at
  longitude 0, the structure of a chart, and the control flow of the solver at inputs whose
  arithmetic is exact.

  The double-precision embedding (the names ending in \<open>_dbl\<close>) rounds the result of every
  operation that rounds in IEEE 754 (the conversion of a decimal literal, addition,
  subtraction, multiplication and division) to the nearest double, ties to even, by the
  function \<open>dbl\<close> below. It carries the statements that depend on rounding.

  In both, a decimal literal of the source denotes its exact decimal value, and values
  that the source only ever uses as whole numbers (array indices, the line, color, tone
  and base digits) are integers.
\<close>

definition js_trunc :: "real \<Rightarrow> int" where
  \<comment> \<open>rounding toward zero, the quotient that the \<^verbatim>\<open>%\<close> operator removes\<close>
  "js_trunc x = (if x < 0 then - \<lfloor>- x\<rfloor> else \<lfloor>x\<rfloor>)"

definition js_rem :: "real \<Rightarrow> real \<Rightarrow> real" where
  \<comment> \<open>\<^verbatim>\<open>a % b\<close>: the remainder has the sign of the dividend. IEEE 754 computes it
      exactly (the result is always a double), so it is the same in both embeddings.
      Every divisor in this program is a positive constant, so the NaN of
      \<^verbatim>\<open>a % 0\<close> never arises.\<close>
  "js_rem a b = a - b * of_int (js_trunc (a / b))"

definition js_index :: "'a list \<Rightarrow> int \<Rightarrow> 'a option" where
  \<comment> \<open>\<^verbatim>\<open>xs[i]\<close> for a whole number \<^verbatim>\<open>i\<close>: reading outside the array gives
      \<^verbatim>\<open>undefined\<close>, which is \<open>None\<close> here\<close>
  "js_index xs i = (if 0 \<le> i \<and> i < int (length xs) then Some (xs ! nat i) else None)"

definition digit_char :: "nat \<Rightarrow> char" where
  "digit_char d = ''0123456789'' ! d"

fun show_nat :: "nat \<Rightarrow> string" where
  "show_nat n = (if n < 10 then [digit_char n] else show_nat (n div 10) @ [digit_char (n mod 10)])"

declare show_nat.simps [simp del]

definition show_int :: "int \<Rightarrow> string" where
  \<comment> \<open>how a template literal renders a whole number\<close>
  "show_int i = (if i < 0 then ''-'' @ show_nat (nat (- i)) else show_nat (nat i))"

definition show_gate :: "nat option \<Rightarrow> string" where
  \<comment> \<open>how a template literal renders an array element that may be \<^verbatim>\<open>undefined\<close>\<close>
  "show_gate g = (case g of None \<Rightarrow> ''undefined'' | Some n \<Rightarrow> show_nat n)"


section \<open>Fixed tables\<close>

text \<open>
  The identifiers of the tracked bodies are constants of the ephemeris library
  (\<^verbatim>\<open>c.SE_SUN\<close> and so on), which is not part of the repository; they are the
  constructors of a datatype, one for each constant that \<^verbatim>\<open>PLANETS\<close> names.
\<close>

datatype planet_id =
  SE_SUN | SE_MOON | SE_MERCURY | SE_VENUS | SE_MARS | SE_JUPITER | SE_SATURN
  | SE_URANUS | SE_NEPTUNE | SE_PLUTO | SE_TRUE_NODE | SE_CHIRON

definition PLANETS :: "(string \<times> planet_id) list" where
  \<comment> \<open>the object literal, as the list of its entries in the order \<^verbatim>\<open>Object.entries\<close> gives\<close>
  "PLANETS =
    [(''Sun'', SE_SUN), (''Moon'', SE_MOON), (''Mercury'', SE_MERCURY), (''Venus'', SE_VENUS),
     (''Mars'', SE_MARS), (''Jupiter'', SE_JUPITER), (''Saturn'', SE_SATURN),
     (''Uranus'', SE_URANUS), (''Neptune'', SE_NEPTUNE), (''Pluto'', SE_PLUTO),
     (''NorthNode'', SE_TRUE_NODE), (''Chiron'', SE_CHIRON)]"

definition GATE_ORDER :: "nat list" where
  "GATE_ORDER =
    [41, 19, 13, 49, 30, 55, 37, 63, 22, 36, 25, 17, 21, 51, 42, 3,
     27, 24, 2, 23, 8, 20, 16, 35, 45, 12, 15, 52, 39, 53, 62, 56,
     31, 33, 7, 4, 29, 59, 40, 64, 47, 6, 46, 18, 48, 57, 32, 50,
     28, 44, 1, 43, 14, 34, 9, 5, 26, 11, 10, 58, 38, 54, 61, 60]"

definition DEGREES_PER_GATE :: real where "DEGREES_PER_GATE = 5.625"
definition DEGREES_PER_LINE :: real where "DEGREES_PER_LINE = 0.9375"
definition DEGREES_PER_COLOR :: real where "DEGREES_PER_COLOR = 0.15625"
definition DEGREES_PER_TONE :: real where "DEGREES_PER_TONE = 0.026041667"
definition DEGREES_PER_BASE :: real where "DEGREES_PER_BASE = 0.005208333"

definition HD_OFFSET :: real where "HD_OFFSET = 58.93"


section \<open>GateMapper\<close>

record gate_code =
  gate :: "nat option"
  line :: int
  color :: int
  tone :: int
  base :: int
  longitude :: real
  wheelPosition :: real
  formatted :: string

definition longitudeToGate :: "real \<Rightarrow> gate_code" where
  "longitudeToGate lon =
    (let deg = js_rem (js_rem lon 360 + 360) 360;
         wheelPos = js_rem (deg + HD_OFFSET) 360;
         gateIndex = \<lfloor>wheelPos / DEGREES_PER_GATE\<rfloor>;
         gate = js_index GATE_ORDER gateIndex;
         posInGate = js_rem wheelPos DEGREES_PER_GATE;
         line = \<lfloor>posInGate / DEGREES_PER_LINE\<rfloor> + 1;
         posInLine = js_rem posInGate DEGREES_PER_LINE;
         color = \<lfloor>posInLine / DEGREES_PER_COLOR\<rfloor> + 1;
         posInColor = js_rem posInLine DEGREES_PER_COLOR;
         tone = \<lfloor>posInColor / DEGREES_PER_TONE\<rfloor> + 1;
         posInTone = js_rem posInColor DEGREES_PER_TONE;
         base = \<lfloor>posInTone / DEGREES_PER_BASE\<rfloor> + 1
     in \<lparr> gate = gate,
          line = min line 6,
          color = min color 6,
          tone = min tone 6,
          base = min base 5,
          longitude = deg,
          wheelPosition = wheelPos,
          formatted = show_gate gate @ ''.'' @ show_int (min line 6) @ ''.''
            @ show_int (min color 6) @ ''.'' @ show_int (min tone 6) @ ''.''
            @ show_int (min base 5) \<rparr>)"

text \<open>
  The local constants of \<^verbatim>\<open>longitudeToGate\<close>, each as a function of the argument, so
  that theorems can name them; \<open>longitudeToGate_fields\<close> below shows that they are the
  values the function computes.
\<close>

definition wheelPos :: "real \<Rightarrow> real" where
  "wheelPos lon = js_rem (js_rem (js_rem lon 360 + 360) 360 + HD_OFFSET) 360"

definition gateIndex :: "real \<Rightarrow> int" where
  "gateIndex lon = \<lfloor>wheelPos lon / DEGREES_PER_GATE\<rfloor>"

definition posInGate :: "real \<Rightarrow> real" where
  "posInGate lon = js_rem (wheelPos lon) DEGREES_PER_GATE"

definition posInLine :: "real \<Rightarrow> real" where
  "posInLine lon = js_rem (posInGate lon) DEGREES_PER_LINE"

definition posInColor :: "real \<Rightarrow> real" where
  "posInColor lon = js_rem (posInLine lon) DEGREES_PER_COLOR"

definition posInTone :: "real \<Rightarrow> real" where
  "posInTone lon = js_rem (posInColor lon) DEGREES_PER_TONE"

text \<open>
  The source writes the expression \<^verbatim>\<open>((x % 360) + 360) % 360\<close> in three places
  (the first line of \<^verbatim>\<open>longitudeToGate\<close> and of \<^verbatim>\<open>findSunAtLongitude\<close>, and
  the design longitude of \<^verbatim>\<open>calculateChart\<close>). It has a name here so that theorems
  can speak of it.
\<close>

definition normalize_deg :: "real \<Rightarrow> real" where
  "normalize_deg x = js_rem (js_rem x 360 + 360) 360"


section \<open>The ephemeris provider and the calendar converter\<close>

text \<open>
  \<^verbatim>\<open>sweph.calc_ut(jd, planetId, flags)\<close> belongs to the ephemeris library. The program
  reads two things from the object it returns: the \<^verbatim>\<open>error\<close> string, whose
  truthiness (being non-empty) is the failure signal, and \<^verbatim>\<open>data[0]\<close>, the
  longitude. The provider is a parameter of the model, a function of the time and the
  body; every call of the source passes the same \<^verbatim>\<open>flags\<close>, which are left out.
  The library fills \<^verbatim>\<open>data\<close> with numbers also when it reports an error, so
  \<open>data0\<close> is a number in every result.
\<close>

record calc_result =
  error :: string
  data0 :: real

type_synonym provider = "real \<Rightarrow> planet_id \<Rightarrow> calc_result"

text \<open>
  A \<^verbatim>\<open>Date\<close> is read through its UTC getters only. \<^verbatim>\<open>sweph.julday\<close> is
  the library's calendar conversion, a parameter too (the calendar flag is always
  \<^verbatim>\<open>c.SE_GREG_CAL\<close>).
\<close>

record js_date =
  utcFullYear :: int
  utcMonth :: int
  utcDate :: int
  utcHours :: int
  utcMinutes :: int
  utcSeconds :: int

type_synonym julday = "int \<Rightarrow> int \<Rightarrow> int \<Rightarrow> real \<Rightarrow> real"

definition dateToJulian :: "julday \<Rightarrow> js_date \<Rightarrow> real" where
  "dateToJulian julday date =
    (let y = utcFullYear date;
         m = utcMonth date + 1;
         d = utcDate date;
         h = of_int (utcHours date) + of_int (utcMinutes date) / 60
               + of_int (utcSeconds date) / 3600
     in julday y m d h)"


section \<open>DesignEpochSolver\<close>

text \<open>
  The \<^verbatim>\<open>while\<close> loop of \<^verbatim>\<open>findSunAtLongitude\<close>. It ends in one of two ways:
  \<open>Some jd\<close> is the \<^verbatim>\<open>return jd\<close> inside the loop, \<open>None\<close> is the loop
  condition turning false after 200 iterations.
\<close>

function solver_loop :: "provider \<Rightarrow> real \<Rightarrow> real \<Rightarrow> real \<Rightarrow> nat \<Rightarrow> real option" where
  "solver_loop calc_ut targetLon direction jd iterations =
    (if iterations < 200 then
       (let sun = calc_ut jd SE_SUN;
            sunLon = data0 sun;
            diff = targetLon - sunLon;
            diff = (if diff > 180 then diff - 360 else diff);
            diff = (if diff < - 180 then diff + 360 else diff)
        in if \<bar>diff\<bar> < 0.0001 then Some jd
           else solver_loop calc_ut targetLon direction (jd + diff * direction) (iterations + 1))
     else None)"
  by pat_completeness auto
termination
  by (relation "measure (\<lambda>(calc_ut, targetLon, direction, jd, iterations). 200 - iterations)") auto

declare solver_loop.simps [simp del]

definition findSunAtLongitude :: "provider \<Rightarrow> real \<Rightarrow> real \<Rightarrow> real \<Rightarrow> real" where
  \<comment> \<open>\<^verbatim>\<open>direction\<close> is the third parameter of the source, with default \<^verbatim>\<open>-1\<close>\<close>
  "findSunAtLongitude calc_ut targetLon startJd direction =
    (let targetLon = js_rem (js_rem targetLon 360 + 360) 360
     in case solver_loop calc_ut targetLon direction startJd 0 of
          Some jd \<Rightarrow> jd
        | None \<Rightarrow> startJd - 88)"

text \<open>
  The search described step by step, apart from the loop: the signed difference that one
  iteration computes at a time \<open>jd\<close>, and the time reached after \<open>n\<close> corrections when no
  convergence test stops the search.
\<close>

definition sunDiff :: "provider \<Rightarrow> real \<Rightarrow> real \<Rightarrow> real" where
  "sunDiff calc_ut targetLon jd =
    (let diff = targetLon - data0 (calc_ut jd SE_SUN);
         diff = (if diff > 180 then diff - 360 else diff)
     in if diff < - 180 then diff + 360 else diff)"

fun solverJd :: "provider \<Rightarrow> real \<Rightarrow> real \<Rightarrow> real \<Rightarrow> nat \<Rightarrow> real" where
  "solverJd calc_ut targetLon direction startJd 0 = startJd"
| "solverJd calc_ut targetLon direction startJd (Suc n) =
    solverJd calc_ut targetLon direction startJd n
      + sunDiff calc_ut targetLon (solverJd calc_ut targetLon direction startJd n) * direction"


section \<open>ChartBuilder\<close>

text \<open>
  The two \<^verbatim>\<open>for\<close> loops over \<^verbatim>\<open>Object.entries(PLANETS)\<close>: a body whose query
  reports an error is skipped (\<^verbatim>\<open>continue\<close>), any other is stored under its name.
\<close>

fun positions :: "provider \<Rightarrow> real \<Rightarrow> (string \<times> planet_id) list
    \<Rightarrow> (string \<rightharpoonup> gate_code) \<Rightarrow> (string \<rightharpoonup> gate_code)" where
  "positions calc_ut jd [] m = m"
| "positions calc_ut jd ((name, planetId) # rest) m =
    (let calc = calc_ut jd planetId
     in if error calc \<noteq> [] then positions calc_ut jd rest m
        else positions calc_ut jd rest (m(name \<mapsto> longitudeToGate (data0 calc))))"

text \<open>
  The \<^verbatim>\<open>if\<close> blocks that add the derived points, written twice in the source (for the
  personality map and for the design map). A stored entry is an object, hence truthy.
\<close>

definition addSouthNode :: "(string \<rightharpoonup> gate_code) \<Rightarrow> (string \<rightharpoonup> gate_code)" where
  "addSouthNode m =
    (case m ''NorthNode'' of
       None \<Rightarrow> m
     | Some northNode \<Rightarrow>
         (let southLon = js_rem (longitude northNode + 180) 360
          in m(''SouthNode'' \<mapsto> longitudeToGate southLon)))"

definition addEarth :: "(string \<rightharpoonup> gate_code) \<Rightarrow> (string \<rightharpoonup> gate_code)" where
  "addEarth m =
    (case m ''Sun'' of
       None \<Rightarrow> m
     | Some sun \<Rightarrow>
         (let earthLon = js_rem (longitude sun + 180) 360
          in m(''Earth'' \<mapsto> longitudeToGate earthLon)))"

record chart =
  birthJulianDay :: real
  designJulianDay :: real
  personality :: "string \<rightharpoonup> gate_code"
  design :: "string \<rightharpoonup> gate_code"

definition calculateChart :: "julday \<Rightarrow> provider \<Rightarrow> js_date \<Rightarrow> chart" where
  "calculateChart julday calc_ut birthDate =
    (let jd = dateToJulian julday birthDate;
         birthSun = calc_ut jd SE_SUN;
         birthSunLon = data0 birthSun;
         designSunLon = js_rem (js_rem (birthSunLon - 88) 360 + 360) 360;
         designJd = findSunAtLongitude calc_ut designSunLon jd (- 1);
         personality = positions calc_ut jd PLANETS Map.empty;
         personality = addSouthNode personality;
         personality = addEarth personality;
         design = positions calc_ut designJd PLANETS Map.empty;
         design = addSouthNode design;
         design = addEarth design
     in \<lparr> birthJulianDay = jd, designJulianDay = designJd,
          personality = personality, design = design \<rparr>)"


section \<open>Sample providers and inputs\<close>

text \<open>
  Concrete collaborators on which the theorems below are exercised: a provider that reports
  an error for every query, one that fails for the Sun only, one that fails for the Moon
  only, and one whose Sun stands at longitude 0 except at time 12, where it stands at 272.
\<close>

definition failing_calc_ut :: provider where
  "failing_calc_ut jd planetId = \<lparr> error = ''ephemeris unavailable'', data0 = 0 \<rparr>"

definition sunless_calc_ut :: provider where
  "sunless_calc_ut jd planetId =
    \<lparr> error = (if planetId = SE_SUN then ''no Sun'' else []), data0 = 0 \<rparr>"

definition moonless_calc_ut :: provider where
  "moonless_calc_ut jd planetId =
    \<lparr> error = (if planetId = SE_MOON then ''no Moon'' else []), data0 = 100 \<rparr>"


definition sample_julday :: julday where
  "sample_julday y m d h = 2445348.5 + h / 24"

definition sample_birthDate :: js_date where
  "sample_birthDate = \<lparr> utcFullYear = 1983, utcMonth = 0, utcDate = 14, utcHours = 21,
     utcMinutes = 24, utcSeconds = 0 \<rparr>"


section \<open>IEEE 754 double precision\<close>

text \<open>
  Rounding to the nearest double, ties to even. A double other than zero is a whole
  multiple \<open>n * 2 ^ (e - 52)\<close> of the unit in the last place of its binade, where \<open>e\<close> is
  the exponent of the value, at least \<open>- 1022\<close> (below that the numbers are subnormal and
  keep the unit \<open>2 ^ (- 1074)\<close>). \<open>dbl x\<close> scales \<open>x\<close> by that unit, rounds the quotient to
  the nearest integer, to the even one when two are equally near, and scales back.
  Overflow is outside the model: it concerns magnitudes from about \<open>2 ^ 1024\<close> on, and
  NaN and the infinities are not values of type \<open>real\<close>. No operation of
  \<^verbatim>\<open>longitudeToGate\<close> can overflow, because \<^verbatim>\<open>% 360\<close> brings every intermediate value
  below 720.
\<close>

definition round_even :: "real \<Rightarrow> int" where
  "round_even y =
    (let f = \<lfloor>y\<rfloor>; r = y - of_int f
     in if r < 1 / 2 then f else if 1 / 2 < r then f + 1 else if even f then f else f + 1)"

definition pow2 :: "int \<Rightarrow> real" where
  "pow2 k = (if 0 \<le> k then 2 ^ nat k else 1 / 2 ^ nat (- k))"

definition dbl_exponent :: "real \<Rightarrow> int" where
  "dbl_exponent x = max \<lfloor>log 2 \<bar>x\<bar>\<rfloor> (- 1022)"

definition ulp :: "real \<Rightarrow> real" where
  "ulp x = pow2 (dbl_exponent x - 52)"

definition dbl :: "real \<Rightarrow> real" where
  "dbl x = (if x = 0 then 0 else of_int (round_even (x / ulp x)) * ulp x)"


section \<open>GateMapper in double precision\<close>

text \<open>
  \<^verbatim>\<open>longitudeToGate\<close> with the rounding of each operation written out. The literals
  360, 5.625, 0.9375 and 0.15625 are doubles; 58.93, 0.026041667 and 0.005208333 are not,
  and the program computes with the doubles nearest to them. Adding 1 to a floor and taking
  the minimum with 6 or 5 are exact. The local constants come first, each as a function of
  the argument; \<open>longitudeToGate_dbl_fields\<close> below shows that they are the values the
  function computes.
\<close>

definition wheelPos_dbl :: "real \<Rightarrow> real" where
  "wheelPos_dbl lon = js_rem (dbl (js_rem (dbl (js_rem lon 360 + 360)) 360 + dbl HD_OFFSET)) 360"

definition gateIndex_dbl :: "real \<Rightarrow> int" where
  "gateIndex_dbl lon = \<lfloor>dbl (wheelPos_dbl lon / DEGREES_PER_GATE)\<rfloor>"

definition posInGate_dbl :: "real \<Rightarrow> real" where
  "posInGate_dbl lon = js_rem (wheelPos_dbl lon) DEGREES_PER_GATE"

definition posInLine_dbl :: "real \<Rightarrow> real" where
  "posInLine_dbl lon = js_rem (posInGate_dbl lon) DEGREES_PER_LINE"

definition posInColor_dbl :: "real \<Rightarrow> real" where
  "posInColor_dbl lon = js_rem (posInLine_dbl lon) DEGREES_PER_COLOR"

definition posInTone_dbl :: "real \<Rightarrow> real" where
  "posInTone_dbl lon = js_rem (posInColor_dbl lon) (dbl DEGREES_PER_TONE)"

text \<open>The expression \<^verbatim>\<open>((x % 360) + 360) % 360\<close> of the source, with the sum rounded.\<close>

definition normalize_dbl :: "real \<Rightarrow> real" where
  "normalize_dbl x = js_rem (dbl (js_rem x 360 + 360)) 360"

definition longitudeToGate_dbl :: "real \<Rightarrow> gate_code" where
  "longitudeToGate_dbl lon =
    (let deg = js_rem (dbl (js_rem lon 360 + 360)) 360;
         wheelPos = js_rem (dbl (deg + dbl HD_OFFSET)) 360;
         gateIndex = \<lfloor>dbl (wheelPos / DEGREES_PER_GATE)\<rfloor>;
         gate = js_index GATE_ORDER gateIndex;
         posInGate = js_rem wheelPos DEGREES_PER_GATE;
         line = \<lfloor>dbl (posInGate / DEGREES_PER_LINE)\<rfloor> + 1;
         posInLine = js_rem posInGate DEGREES_PER_LINE;
         color = \<lfloor>dbl (posInLine / DEGREES_PER_COLOR)\<rfloor> + 1;
         posInColor = js_rem posInLine DEGREES_PER_COLOR;
         tone = \<lfloor>dbl (posInColor / dbl DEGREES_PER_TONE)\<rfloor> + 1;
         posInTone = js_rem posInColor (dbl DEGREES_PER_TONE);
         base = \<lfloor>dbl (posInTone / dbl DEGREES_PER_BASE)\<rfloor> + 1
     in \<lparr> gate = gate,
          line = min line 6,
          color = min color 6,
          tone = min tone 6,
          base = min base 5,
          longitude = deg,
          wheelPosition = wheelPos,
          formatted = show_gate gate @ ''.'' @ show_int (min line 6) @ ''.''
            @ show_int (min color 6) @ ''.'' @ show_int (min tone 6) @ ''.''
            @ show_int (min base 5) \<rparr>)"


section \<open>DesignEpochSolver in double precision\<close>








section \<open>Properties of the operators\<close>

lemma js_rem_nonneg:
  assumes "0 \<le> a" and "0 < b"
  shows "0 \<le> js_rem a b" and "js_rem a b < b"
proof -
  have q: "0 \<le> a / b" using assms by simp
  have eq: "js_rem a b = a - b * of_int \<lfloor>a / b\<rfloor>"
    using q by (simp add: js_rem_def js_trunc_def)
  have "of_int \<lfloor>a / b\<rfloor> \<le> a / b" by (rule of_int_floor_le)
  then have "b * of_int \<lfloor>a / b\<rfloor> \<le> b * (a / b)"
    using assms(2) by (intro mult_left_mono) simp_all
  then have "b * of_int \<lfloor>a / b\<rfloor> \<le> a"
    using assms(2) by simp
  then show "0 \<le> js_rem a b" by (simp add: eq)
  have "a / b < of_int \<lfloor>a / b\<rfloor> + 1" by linarith
  then have "b * (a / b) < b * (of_int \<lfloor>a / b\<rfloor> + 1)"
    using assms(2) by (rule mult_strict_left_mono)
  moreover have "b * (a / b) = a" using assms(2) by simp
  ultimately have "a < b * (of_int \<lfloor>a / b\<rfloor> + 1)" by (simp only:)
  then show "js_rem a b < b" by (simp add: eq algebra_simps)
qed

lemma js_rem_neg:
  assumes "a < 0" and "0 < b"
  shows "- b < js_rem a b" and "js_rem a b \<le> 0"
proof -
  have q: "a / b < 0" using assms by (simp add: divide_neg_pos)
  have eq: "js_rem a b = a + b * of_int \<lfloor>- a / b\<rfloor>"
    using q by (simp add: js_rem_def js_trunc_def algebra_simps)
  have "of_int \<lfloor>- a / b\<rfloor> \<le> - a / b" by (rule of_int_floor_le)
  then have "b * of_int \<lfloor>- a / b\<rfloor> \<le> b * (- a / b)"
    using assms(2) by (intro mult_left_mono) simp_all
  then have "b * of_int \<lfloor>- a / b\<rfloor> \<le> - a"
    using assms(2) by simp
  then show "js_rem a b \<le> 0" by (simp add: eq)
  have "- a / b < of_int \<lfloor>- a / b\<rfloor> + 1" by linarith
  then have "b * (- a / b) < b * (of_int \<lfloor>- a / b\<rfloor> + 1)"
    using assms(2) by (rule mult_strict_left_mono)
  moreover have "b * (- a / b) = - a" using assms(2) by simp
  ultimately have "- a < b * (of_int \<lfloor>- a / b\<rfloor> + 1)" by (simp only:)
  then show "- b < js_rem a b" by (simp add: eq algebra_simps)
qed

lemma js_rem_abs_bound:
  assumes "0 < b"
  shows "- b < js_rem a b" and "js_rem a b < b"
proof -
  show "- b < js_rem a b"
  proof (cases "a < 0")
    case True
    then show ?thesis using assms by (rule js_rem_neg)
  next
    case False
    then have "0 \<le> js_rem a b" using assms by (simp add: js_rem_nonneg)
    then show ?thesis using assms by simp
  qed
  show "js_rem a b < b"
  proof (cases "a < 0")
    case True
    then have "js_rem a b \<le> 0" using assms by (rule js_rem_neg)
    then show ?thesis using assms by simp
  next
    case False
    then show ?thesis using assms by (simp add: js_rem_nonneg)
  qed
qed

lemma normalize_deg_range: "0 \<le> normalize_deg x" "normalize_deg x < 360"
proof -
  have "- 360 < js_rem x 360" by (rule js_rem_abs_bound) simp
  then have nn: "0 \<le> js_rem x 360 + 360" by simp
  show "0 \<le> normalize_deg x" unfolding normalize_deg_def using nn by (rule js_rem_nonneg) simp
  show "normalize_deg x < 360" unfolding normalize_deg_def using nn by (rule js_rem_nonneg) simp
qed


lemma js_rem_congruent: "\<exists>k::int. js_rem a b = a + b * of_int k"
proof
  show "js_rem a b = a + b * of_int (- js_trunc (a / b))"
    by (simp add: js_rem_def)
qed


lemma normalize_deg_272: "normalize_deg 272 = 272"
  by (simp add: normalize_deg_def js_rem_def js_trunc_def)


lemma normalize_deg_minus_88: "normalize_deg (0 - 88) = 272"
  by (simp add: normalize_deg_def js_rem_def js_trunc_def)


section \<open>GateMapper: the fields of a gate code\<close>

lemma longitudeToGate_fields:
  "longitudeToGate lon =
    \<lparr> gate = js_index GATE_ORDER (gateIndex lon),
      line = min (\<lfloor>posInGate lon / DEGREES_PER_LINE\<rfloor> + 1) 6,
      color = min (\<lfloor>posInLine lon / DEGREES_PER_COLOR\<rfloor> + 1) 6,
      tone = min (\<lfloor>posInColor lon / DEGREES_PER_TONE\<rfloor> + 1) 6,
      base = min (\<lfloor>posInTone lon / DEGREES_PER_BASE\<rfloor> + 1) 5,
      longitude = normalize_deg lon,
      wheelPosition = wheelPos lon,
      formatted = show_gate (js_index GATE_ORDER (gateIndex lon)) @ ''.''
        @ show_int (min (\<lfloor>posInGate lon / DEGREES_PER_LINE\<rfloor> + 1) 6) @ ''.''
        @ show_int (min (\<lfloor>posInLine lon / DEGREES_PER_COLOR\<rfloor> + 1) 6) @ ''.''
        @ show_int (min (\<lfloor>posInColor lon / DEGREES_PER_TONE\<rfloor> + 1) 6) @ ''.''
        @ show_int (min (\<lfloor>posInTone lon / DEGREES_PER_BASE\<rfloor> + 1) 5) \<rparr>"
  unfolding longitudeToGate_def Let_def posInTone_def posInColor_def posInLine_def
    posInGate_def gateIndex_def wheelPos_def normalize_deg_def
  by (rule refl)


lemma zero_positions:
  "wheelPos 0 = 58.93" "posInGate 0 = 2.68" "posInLine 0 = 0.805"
  "posInColor 0 = 0.02375" "posInTone 0 = 0.02375"
proof -
  show w: "wheelPos 0 = 58.93"
    by (simp add: wheelPos_def js_rem_def js_trunc_def HD_OFFSET_def)
  show g: "posInGate 0 = 2.68"
    by (simp add: posInGate_def w js_rem_def js_trunc_def DEGREES_PER_GATE_def)
  show l: "posInLine 0 = 0.805"
    by (simp add: posInLine_def g js_rem_def js_trunc_def DEGREES_PER_LINE_def)
  show c: "posInColor 0 = 0.02375"
    by (simp add: posInColor_def l js_rem_def js_trunc_def DEGREES_PER_COLOR_def)
  show "posInTone 0 = 0.02375"
    by (simp add: posInTone_def c js_rem_def js_trunc_def DEGREES_PER_TONE_def)
qed

lemma show_small:
  "show_nat 25 = ''25''" "show_int 3 = ''3''" "show_int 6 = ''6''" "show_int 1 = ''1''"
  "show_int 5 = ''5''"
  by (simp_all add: show_int_def show_nat.simps digit_char_def)

lemma gate_code_at_0:
  "longitudeToGate 0
     = \<lparr> gate = Some 25, line = 3, color = 6, tone = 1, base = 5, longitude = 0,
         wheelPosition = 58.93, formatted = ''25.3.6.1.5'' \<rparr>"
  by (simp add: longitudeToGate_fields zero_positions gateIndex_def normalize_deg_def
      js_rem_def js_trunc_def js_index_def GATE_ORDER_def DEGREES_PER_GATE_def
      DEGREES_PER_LINE_def DEGREES_PER_COLOR_def DEGREES_PER_TONE_def DEGREES_PER_BASE_def
      show_gate_def show_small)

lemma direct_digits:
  fixes r1 r2 r3 r4 :: real
  defines "r1 \<equiv> 58.93 - 5.625 * of_int \<lfloor>58.93 / 5.625 :: real\<rfloor>"
  defines "r2 \<equiv> r1 - 0.9375 * of_int \<lfloor>r1 / 0.9375\<rfloor>"
  defines "r3 \<equiv> r2 - 0.15625 * of_int \<lfloor>r2 / 0.15625\<rfloor>"
  defines "r4 \<equiv> r3 - 0.026041667 * of_int \<lfloor>r3 / 0.026041667\<rfloor>"
  shows "\<lfloor>r1 / 0.9375\<rfloor> + 1 = 3" "\<lfloor>r2 / 0.15625\<rfloor> + 1 = 6"
    "\<lfloor>r3 / 0.026041667\<rfloor> + 1 = 1" "\<lfloor>r4 / 0.005208333\<rfloor> + 1 = 5"
proof -
  have r1: "r1 = 2.68" by (simp add: r1_def)
  have r2: "r2 = 0.805" by (simp add: r2_def r1)
  have r3: "r3 = 0.02375" by (simp add: r3_def r2)
  have r4: "r4 = 0.02375" by (simp add: r4_def r3)
  show "\<lfloor>r1 / 0.9375\<rfloor> + 1 = 3" by (simp add: r1)
  show "\<lfloor>r2 / 0.15625\<rfloor> + 1 = 6" by (simp add: r2)
  show "\<lfloor>r3 / 0.026041667\<rfloor> + 1 = 1" by (simp add: r3)
  show "\<lfloor>r4 / 0.005208333\<rfloor> + 1 = 5" by (simp add: r4)
qed

text \<open>
  C9. The unit case: \<open>longitudeToGate 0\<close> with the offset 58.93 has wheel position 58.93 and
  gate-arc index \<open>\<lfloor>58.93 / 5.625\<rfloor> = 10\<close>, so its gate is the entry of \<open>GATE_ORDER\<close> at
  index 10; its line, color, tone and base are the values of the direct nested
  floor-divide and remainder computation from the step constants 0.9375, 0.15625,
  0.026041667 and 0.005208333. The whole record is 25.3.6.1.5.
\<close>

theorem longitudeToGate_zero:
  "wheelPosition (longitudeToGate 0) = 58.93
   \<and> gateIndex 0 = \<lfloor>58.93 / 5.625 :: real\<rfloor> \<and> gateIndex 0 = 10
   \<and> gate (longitudeToGate 0) = Some (GATE_ORDER ! 10)
   \<and> (let r1 = (58.93 :: real) - 5.625 * of_int \<lfloor>58.93 / 5.625 :: real\<rfloor>;
           r2 = r1 - 0.9375 * of_int \<lfloor>r1 / 0.9375\<rfloor>;
           r3 = r2 - 0.15625 * of_int \<lfloor>r2 / 0.15625\<rfloor>;
           r4 = r3 - 0.026041667 * of_int \<lfloor>r3 / 0.026041667\<rfloor>
       in line (longitudeToGate 0) = \<lfloor>r1 / 0.9375\<rfloor> + 1
          \<and> color (longitudeToGate 0) = \<lfloor>r2 / 0.15625\<rfloor> + 1
          \<and> tone (longitudeToGate 0) = \<lfloor>r3 / 0.026041667\<rfloor> + 1
          \<and> base (longitudeToGate 0) = \<lfloor>r4 / 0.005208333\<rfloor> + 1)
   \<and> longitudeToGate 0
       = \<lparr> gate = Some 25, line = 3, color = 6, tone = 1, base = 5, longitude = 0,
           wheelPosition = 58.93, formatted = ''25.3.6.1.5'' \<rparr>"
proof -
  have i: "gateIndex 0 = 10" "\<lfloor>58.93 / 5.625 :: real\<rfloor> = 10"
    by (simp_all add: gateIndex_def zero_positions DEGREES_PER_GATE_def)
  have g: "GATE_ORDER ! 10 = 25" by (simp add: GATE_ORDER_def)
  show ?thesis
    unfolding Let_def direct_digits gate_code_at_0 i g by simp
qed


section \<open>The step constants\<close>

text \<open>
  C5, as stated: each step constant equals its parent's step divided by its own radix.
  This fails for the two finest levels: \<open>DEGREES_PER_TONE\<close> is not
  \<open>DEGREES_PER_COLOR / 6\<close> and \<open>DEGREES_PER_BASE\<close> is not \<open>DEGREES_PER_TONE / 5\<close>, nor
  \<open>5.625 / 6 / 6 / 6 / 5\<close>. The gaps are of the order of \<^verbatim>\<open>1e-10\<close>, far above the
  spacing of doubles at this magnitude, so they are not an effect of rounding.
\<close>

theorem tone_base_steps_not_nested:
  "DEGREES_PER_TONE \<noteq> DEGREES_PER_COLOR / 6 \<and> DEGREES_PER_BASE \<noteq> DEGREES_PER_TONE / 5
   \<and> DEGREES_PER_BASE \<noteq> 5.625 / 6 / 6 / 6 / 5"
  by (simp add: DEGREES_PER_COLOR_def DEGREES_PER_TONE_def DEGREES_PER_BASE_def)

text \<open>
  C5, amended: the line and color steps are exactly the parent's step divided by 6; the
  tone and base steps are the nine-decimal literals 0.026041667 and 0.005208333, the first
  above \<open>DEGREES_PER_COLOR / 6\<close> and the second below \<open>DEGREES_PER_TONE / 5\<close>, each by less
  than \<open>5 / 10 ^ 10\<close>.
\<close>

theorem step_constants_relation:
  "DEGREES_PER_LINE = DEGREES_PER_GATE / 6 \<and> DEGREES_PER_LINE = 5.625 / 6
   \<and> DEGREES_PER_COLOR = DEGREES_PER_LINE / 6
   \<and> DEGREES_PER_TONE = 0.026041667 \<and> DEGREES_PER_BASE = 0.005208333
   \<and> 0 < DEGREES_PER_TONE - DEGREES_PER_COLOR / 6
   \<and> DEGREES_PER_TONE - DEGREES_PER_COLOR / 6 < 5 / 10 ^ 10
   \<and> 0 < DEGREES_PER_TONE / 5 - DEGREES_PER_BASE
   \<and> DEGREES_PER_TONE / 5 - DEGREES_PER_BASE < 5 / 10 ^ 10"
  by (simp add: DEGREES_PER_GATE_def DEGREES_PER_LINE_def DEGREES_PER_COLOR_def
      DEGREES_PER_TONE_def DEGREES_PER_BASE_def)


section \<open>DesignEpochSolver: the bounded search\<close>

lemma solver_loop_unfold:
  "solver_loop calc_ut targetLon direction jd iterations =
    (if iterations < 200 then
       if \<bar>sunDiff calc_ut targetLon jd\<bar> < 0.0001 then Some jd
       else solver_loop calc_ut targetLon direction
              (jd + sunDiff calc_ut targetLon jd * direction) (Suc iterations)
     else None)"
  by (subst solver_loop.simps) (simp add: sunDiff_def Let_def)

lemma solverJd_shift:
  "solverJd calc_ut targetLon direction startJd (Suc n) =
     solverJd calc_ut targetLon direction
       (startJd + sunDiff calc_ut targetLon startJd * direction) n"
  by (induction n) simp_all

lemma solver_loop_exhausted:
  "200 - iterations = n \<Longrightarrow>
   (\<And>k. k < n \<Longrightarrow>
      \<not> \<bar>sunDiff calc_ut targetLon (solverJd calc_ut targetLon direction jd k)\<bar> < 0.0001)
   \<Longrightarrow> solver_loop calc_ut targetLon direction jd iterations = None"
proof (induction n arbitrary: jd iterations)
  case 0
  then have "\<not> iterations < 200" by simp
  then show ?case by (subst solver_loop_unfold) simp
next
  case (Suc n)
  let ?jd' = "jd + sunDiff calc_ut targetLon jd * direction"
  have lt: "iterations < 200" using Suc.prems(1) by simp
  have nc: "\<not> \<bar>sunDiff calc_ut targetLon jd\<bar> < 0.0001"
    using Suc.prems(2) [of 0] by simp
  have "solver_loop calc_ut targetLon direction ?jd' (Suc iterations) = None"
  proof (rule Suc.IH)
    show "200 - Suc iterations = n" using Suc.prems(1) by simp
  next
    fix k assume "k < n"
    then have "Suc k < Suc n" by simp
    then have "\<not> \<bar>sunDiff calc_ut targetLon
        (solverJd calc_ut targetLon direction jd (Suc k))\<bar> < 0.0001"
      by (rule Suc.prems(2))
    then show "\<not> \<bar>sunDiff calc_ut targetLon
        (solverJd calc_ut targetLon direction ?jd' k)\<bar> < 0.0001"
      by (simp del: solverJd.simps add: solverJd_shift)
  qed
  then show ?case using lt nc by (subst solver_loop_unfold) simp
qed


lemma findSunAtLongitude_alt:
  "findSunAtLongitude calc_ut targetLon startJd direction =
    (case solver_loop calc_ut (normalize_deg targetLon) direction startJd 0 of
       Some jd \<Rightarrow> jd | None \<Rightarrow> startJd - 88)"
  by (simp add: findSunAtLongitude_def normalize_deg_def)

lemma constant_sun_exhausts:
  assumes "\<And>j. data0 (calc_ut j SE_SUN) = 0"
  shows "solver_loop calc_ut 272 (- 1) jd 0 = None"
proof (rule solver_loop_exhausted [where n = 200])
  show "200 - (0::nat) = 200" by simp
next
  fix k :: nat
  have "sunDiff calc_ut 272 j = - 88" for j
    by (simp add: sunDiff_def Let_def assms)
  then show "\<not> \<bar>sunDiff calc_ut 272 (solverJd calc_ut 272 (- 1) jd k)\<bar> < 0.0001"
    by simp
qed








text \<open>
  C4. The specification: a provider failure inside the loop aborts the search and reaches the
  caller as an error, with no silent fallback. The loop never reads the \<open>error\<close> field:
  with the provider \<open>failing_calc_ut\<close>, which reports an error for every query, the search
  for target 272 runs through all 200 iterations and returns the fallback, the start time
  minus 88.
\<close>

theorem solver_ignores_provider_failure:
  "error (failing_calc_ut jd SE_SUN) \<noteq> []
   \<and> solver_loop failing_calc_ut 272 (- 1) startJd 0 = None
   \<and> findSunAtLongitude failing_calc_ut 272 startJd (- 1) = startJd - 88"
proof -
  have "solver_loop failing_calc_ut 272 (- 1) startJd 0 = None"
    by (rule constant_sun_exhausts) (simp add: failing_calc_ut_def)
  then show ?thesis
    by (simp add: findSunAtLongitude_alt normalize_deg_272 failing_calc_ut_def)
qed


section \<open>ChartBuilder: the two epoch maps\<close>

lemma positions_other:
  "name \<notin> fst ` set ps \<Longrightarrow> positions calc_ut jd ps m name = m name"
  by (induction ps arbitrary: m) (auto simp add: Let_def)

lemma positions_lookup:
  "distinct (map fst ps) \<Longrightarrow> (name, planetId) \<in> set ps \<Longrightarrow>
   positions calc_ut jd ps m name =
     (if error (calc_ut jd planetId) \<noteq> [] then m name
      else Some (longitudeToGate (data0 (calc_ut jd planetId))))"
proof (induction ps arbitrary: m)
  case Nil
  then show ?case by simp
next
  case (Cons p ps)
  obtain n q where p: "p = (n, q)" by (cases p)
  show ?case
  proof (cases "(name, planetId) = p")
    case True
    then have "name \<notin> fst ` set ps" using Cons.prems(1) p by auto
    then show ?thesis using True p by (simp add: Let_def positions_other)
  next
    case False
    then have mem: "(name, planetId) \<in> set ps" using Cons.prems(2) by simp
    then have "name \<in> fst ` set ps" by force
    then have ne: "n \<noteq> name" using Cons.prems(1) p by auto
    have d: "distinct (map fst ps)" using Cons.prems(1) by simp
    show ?thesis using ne by (simp add: p Let_def Cons.IH [OF d mem])
  qed
qed

lemma distinct_PLANETS: "distinct (map fst PLANETS)"
  by (simp add: PLANETS_def)

lemma PLANETS_names:
  "(name, planetId) \<in> set PLANETS \<Longrightarrow> name \<noteq> ''SouthNode'' \<and> name \<noteq> ''Earth''"
  by (auto simp add: PLANETS_def)

lemma PLANETS_members:
  "(''Sun'', SE_SUN) \<in> set PLANETS" "(''Moon'', SE_MOON) \<in> set PLANETS"
  "(''Mars'', SE_MARS) \<in> set PLANETS" "(''NorthNode'', SE_TRUE_NODE) \<in> set PLANETS"
  by (simp_all add: PLANETS_def)

lemma addSouthNode_other: "name \<noteq> ''SouthNode'' \<Longrightarrow> addSouthNode m name = m name"
  by (simp add: addSouthNode_def Let_def split: option.split)

lemma addEarth_other: "name \<noteq> ''Earth'' \<Longrightarrow> addEarth m name = m name"
  by (simp add: addEarth_def Let_def split: option.split)






lemma calculateChart_fields:
  "birthJulianDay (calculateChart julday calc_ut birthDate) = dateToJulian julday birthDate"
  "designJulianDay (calculateChart julday calc_ut birthDate) =
     findSunAtLongitude calc_ut
       (normalize_deg (data0 (calc_ut (dateToJulian julday birthDate) SE_SUN) - 88))
       (dateToJulian julday birthDate) (- 1)"
  "personality (calculateChart julday calc_ut birthDate) =
     addEarth (addSouthNode (positions calc_ut
       (birthJulianDay (calculateChart julday calc_ut birthDate)) PLANETS Map.empty))"
  "design (calculateChart julday calc_ut birthDate) =
     addEarth (addSouthNode (positions calc_ut
       (designJulianDay (calculateChart julday calc_ut birthDate)) PLANETS Map.empty))"
  unfolding calculateChart_def Let_def normalize_deg_def by simp_all

lemma epoch_map_lookup:
  assumes "(name, planetId) \<in> set PLANETS"
  shows "addEarth (addSouthNode (positions calc_ut jd PLANETS Map.empty)) name =
     (if error (calc_ut jd planetId) \<noteq> [] then None
      else Some (longitudeToGate (data0 (calc_ut jd planetId))))"
proof -
  have "name \<noteq> ''SouthNode''" "name \<noteq> ''Earth''" using PLANETS_names [OF assms] by simp_all
  then have "addEarth (addSouthNode (positions calc_ut jd PLANETS Map.empty)) name
      = positions calc_ut jd PLANETS Map.empty name"
    by (simp add: addEarth_other addSouthNode_other)
  then show ?thesis by (simp add: positions_lookup [OF distinct_PLANETS assms])
qed

text \<open>
  C3. The specification: a provider failure for the Sun at the birth epoch is fatal and no chart
  is returned. \<open>calculateChart\<close> reads \<open>data0\<close> of the birth Sun query without looking
  at its \<open>error\<close> field: with the provider \<open>sunless_calc_ut\<close>, which reports an error for
  every Sun query, a chart is returned all the same, for every calendar converter and
  birth date. Its design time is the fallback of a search run from the placeholder
  longitude 0, its personality map has no Sun and holds the other bodies.
\<close>

theorem birth_sun_failure_not_fatal:
  "error (sunless_calc_ut (dateToJulian julday birthDate) SE_SUN) \<noteq> []
   \<and> birthJulianDay (calculateChart julday sunless_calc_ut birthDate)
       = dateToJulian julday birthDate
   \<and> designJulianDay (calculateChart julday sunless_calc_ut birthDate)
       = dateToJulian julday birthDate - 88
   \<and> personality (calculateChart julday sunless_calc_ut birthDate) ''Sun'' = None
   \<and> personality (calculateChart julday sunless_calc_ut birthDate) ''Moon''
       = Some (longitudeToGate 0)"
proof -
  let ?jd = "dateToJulian julday birthDate"
  have "solver_loop sunless_calc_ut 272 (- 1) ?jd 0 = None"
    by (rule constant_sun_exhausts) (simp add: sunless_calc_ut_def)
  then have f: "findSunAtLongitude sunless_calc_ut 272 ?jd (- 1) = ?jd - 88"
    by (simp add: findSunAtLongitude_alt normalize_deg_272)
  have z: "data0 (sunless_calc_ut ?jd SE_SUN) = 0" by (simp add: sunless_calc_ut_def)
  have d: "designJulianDay (calculateChart julday sunless_calc_ut birthDate) = ?jd - 88"
    by (simp only: calculateChart_fields(2) z normalize_deg_minus_88 f)
  have s: "personality (calculateChart julday sunless_calc_ut birthDate) ''Sun'' = None"
    using PLANETS_members(1)
    by (simp add: calculateChart_fields(3) epoch_map_lookup sunless_calc_ut_def)
  have m: "personality (calculateChart julday sunless_calc_ut birthDate) ''Moon''
      = Some (longitudeToGate 0)"
    using PLANETS_members(2)
    by (simp add: calculateChart_fields(3) epoch_map_lookup sunless_calc_ut_def)
  show ?thesis using d s m by (simp add: calculateChart_fields(1) sunless_calc_ut_def)
qed

text \<open>
  C8. Partial results: for each tracked body of \<open>PLANETS\<close> and each of the two epochs, the
  body is absent from that epoch's map exactly when its own query at that epoch reports
  an error, and is otherwise stored as the gate code of the queried longitude, whatever
  the queries for the other bodies and the other epoch report. The chart itself is
  always produced.
\<close>

theorem partial_result_policy:
  assumes "(name, planetId) \<in> set PLANETS"
  shows "personality (calculateChart julday calc_ut birthDate) name =
      (if error (calc_ut (birthJulianDay (calculateChart julday calc_ut birthDate)) planetId) \<noteq> []
       then None
       else Some (longitudeToGate
         (data0 (calc_ut (birthJulianDay (calculateChart julday calc_ut birthDate)) planetId))))
    \<and> design (calculateChart julday calc_ut birthDate) name =
      (if error (calc_ut (designJulianDay (calculateChart julday calc_ut birthDate)) planetId) \<noteq> []
       then None
       else Some (longitudeToGate
         (data0 (calc_ut (designJulianDay (calculateChart julday calc_ut birthDate)) planetId))))"
  by (simp only: calculateChart_fields(3,4) epoch_map_lookup [OF assms])

text \<open>
  C8 at the provider \<open>moonless_calc_ut\<close>, which fails for the Moon only: both maps lack
  the Moon and hold Mars at the gate code of its longitude 100.
\<close>

theorem partial_result_policy_witness:
  "(''Moon'', SE_MOON) \<in> set PLANETS \<and> (''Mars'', SE_MARS) \<in> set PLANETS
   \<and> personality (calculateChart sample_julday moonless_calc_ut sample_birthDate) ''Moon'' = None
   \<and> personality (calculateChart sample_julday moonless_calc_ut sample_birthDate) ''Mars''
       = Some (longitudeToGate 100)
   \<and> design (calculateChart sample_julday moonless_calc_ut sample_birthDate) ''Moon'' = None
   \<and> design (calculateChart sample_julday moonless_calc_ut sample_birthDate) ''Mars''
       = Some (longitudeToGate 100)"
proof -
  have moon: "(''Moon'', SE_MOON) \<in> set PLANETS" and mars: "(''Mars'', SE_MARS) \<in> set PLANETS"
    by (simp_all add: PLANETS_def)
  show ?thesis
    using moon mars
      partial_result_policy [OF moon, of sample_julday moonless_calc_ut sample_birthDate]
      partial_result_policy [OF mars, of sample_julday moonless_calc_ut sample_birthDate]
    by (simp add: moonless_calc_ut_def)
qed




section \<open>Double precision: properties of rounding\<close>

lemma pow2_powr: "pow2 k = 2 powr of_int k"
  by (simp add: pow2_def powr_int)

lemma pow2_pos: "0 < pow2 k"
  by (simp add: pow2_powr)

lemma pow2_add: "pow2 (a + b) = pow2 a * pow2 b"
  by (simp add: pow2_powr powr_add)

lemma pow2_nonneg_int: "0 \<le> k \<Longrightarrow> pow2 k = of_int (2 ^ nat k)"
  by (simp add: pow2_def)

lemma pow2_mono: "a \<le> b \<Longrightarrow> pow2 a \<le> pow2 b"
  by (simp add: pow2_powr)

lemma ulp_pos: "0 < ulp x"
  by (simp add: ulp_def pow2_pos)

lemma round_even_cases: "round_even y = \<lfloor>y\<rfloor> \<or> round_even y = \<lfloor>y\<rfloor> + 1"
  by (simp add: round_even_def Let_def)

lemma round_even_of_int: "round_even (of_int n) = n"
  by (simp add: round_even_def)

lemma round_even_le:
  assumes "y \<le> of_int n"
  shows "round_even y \<le> n"
proof (cases "y = of_int \<lfloor>y\<rfloor>")
  case True
  then have "round_even y = \<lfloor>y\<rfloor>" by (metis round_even_of_int)
  moreover have "\<lfloor>y\<rfloor> \<le> n" using assms by (simp add: floor_le_iff)
  ultimately show ?thesis by simp
next
  case False
  then have "of_int \<lfloor>y\<rfloor> < y" by (metis of_int_floor_le order_less_le)
  then have "of_int \<lfloor>y\<rfloor> < (of_int n :: real)" using assms by linarith
  then have "\<lfloor>y\<rfloor> < n" by simp
  then show ?thesis using round_even_cases [of y] by linarith
qed

lemma round_even_ge:
  assumes "of_int n \<le> y"
  shows "n \<le> round_even y"
proof -
  have "n \<le> \<lfloor>y\<rfloor>" using assms by (simp add: le_floor_iff)
  then show ?thesis using round_even_cases [of y] by linarith
qed

lemma dbl_zero: "dbl 0 = 0"
  by (simp add: dbl_def)

lemma dbl_nonneg: "0 \<le> x \<Longrightarrow> 0 \<le> dbl x"
proof -
  assume "0 \<le> x"
  then have "of_int 0 \<le> x / ulp x" using ulp_pos [of x] by simp
  then have "0 \<le> round_even (x / ulp x)" by (rule round_even_ge)
  then show ?thesis using ulp_pos [of x] by (simp add: dbl_def)
qed

lemma dbl_exponent_le:
  assumes "x \<noteq> 0" and "\<bar>x\<bar> < pow2 (e + 1)" and "- 1022 \<le> e"
  shows "dbl_exponent x \<le> e"
proof -
  have "log 2 \<bar>x\<bar> < of_int (e + 1)"
    using assms(1,2) by (simp add: log_less_iff pow2_powr)
  then have "\<lfloor>log 2 \<bar>x\<bar>\<rfloor> < e + 1" by (simp only: floor_less_iff)
  then show ?thesis using assms(3) by (simp add: dbl_exponent_def)
qed

lemma dbl_exponent_eq:
  assumes "pow2 e \<le> \<bar>x\<bar>" and "\<bar>x\<bar> < pow2 (e + 1)" and "- 1022 \<le> e"
  shows "dbl_exponent x = e"
proof -
  have pos: "0 < \<bar>x\<bar>" using assms(1) pow2_pos [of e] by linarith
  have "\<lfloor>log 2 \<bar>x\<bar>\<rfloor> = e"
    using assms(1,2) pos by (simp add: floor_log_eq_powr_iff pow2_powr)
  then show ?thesis using assms(3) by (simp add: dbl_exponent_def)
qed

lemma grid_multiple:
  assumes "c = of_int m * pow2 k" and "dbl_exponent x - 52 \<le> k"
  shows "\<exists>M. c = of_int M * ulp x"
proof -
  define j where "j = k - (dbl_exponent x - 52)"
  have j: "0 \<le> j" using assms(2) by (simp add: j_def)
  have "pow2 k = pow2 (j + (dbl_exponent x - 52))" by (simp add: j_def)
  also have "\<dots> = pow2 j * ulp x" by (simp only: pow2_add ulp_def)
  also have "\<dots> = of_int (2 ^ nat j) * ulp x" using j by (simp only: pow2_nonneg_int)
  finally have "c = of_int (m * 2 ^ nat j) * ulp x" using assms(1) by simp
  then show ?thesis by blast
qed

lemma dbl_le_grid:
  assumes "x \<le> c" and "c = of_int m * pow2 k"
    and "\<bar>x\<bar> < pow2 (e + 1)" and "- 1022 \<le> e" and "e - 52 \<le> k"
  shows "dbl x \<le> c"
proof (cases "x = 0")
  case True
  then show ?thesis using assms(1) by (simp add: dbl_zero)
next
  case False
  have "dbl_exponent x \<le> e" using False assms(3,4) by (rule dbl_exponent_le)
  then have "dbl_exponent x - 52 \<le> k" using assms(5) by simp
  with assms(2) obtain M where c: "c = of_int M * ulp x" using grid_multiple by blast
  have "x / ulp x \<le> of_int M"
    using assms(1) ulp_pos [of x] unfolding c by (simp add: pos_divide_le_eq)
  then have "round_even (x / ulp x) \<le> M" by (rule round_even_le)
  then have "(of_int (round_even (x / ulp x)) :: real) \<le> of_int M"
    by (simp only: of_int_le_iff)
  then have "of_int (round_even (x / ulp x)) * ulp x \<le> of_int M * ulp x"
    using ulp_pos [of x] by (simp only: mult_le_cancel_right_pos)
  then show ?thesis using False by (simp only: dbl_def c if_False)
qed

lemma dbl_ge_grid:
  assumes "c \<le> x" and "c = of_int m * pow2 k"
    and "\<bar>x\<bar> < pow2 (e + 1)" and "- 1022 \<le> e" and "e - 52 \<le> k"
  shows "c \<le> dbl x"
proof (cases "x = 0")
  case True
  then show ?thesis using assms(1) by (simp add: dbl_zero)
next
  case False
  have "dbl_exponent x \<le> e" using False assms(3,4) by (rule dbl_exponent_le)
  then have "dbl_exponent x - 52 \<le> k" using assms(5) by simp
  with assms(2) obtain M where c: "c = of_int M * ulp x" using grid_multiple by blast
  have "of_int M \<le> x / ulp x"
    using assms(1) ulp_pos [of x] unfolding c by (simp add: pos_le_divide_eq)
  then have "M \<le> round_even (x / ulp x)" by (rule round_even_ge)
  then have "(of_int M :: real) \<le> of_int (round_even (x / ulp x))"
    by (simp only: of_int_le_iff)
  then have "of_int M * ulp x \<le> of_int (round_even (x / ulp x)) * ulp x"
    using ulp_pos [of x] by (simp only: mult_le_cancel_right_pos)
  then show ?thesis using False by (simp only: dbl_def c if_False)
qed

lemma dbl_eqI:
  assumes "pow2 e \<le> \<bar>x\<bar>" and "\<bar>x\<bar> < pow2 (e + 1)" and "- 1022 \<le> e"
    and "round_even (x / pow2 (e - 52)) = n" and "y = of_int n * pow2 (e - 52)"
  shows "dbl x = y"
proof -
  have "x \<noteq> 0" using assms(1) pow2_pos [of e] by auto
  then show ?thesis
    using assms(4,5) by (simp add: dbl_def ulp_def dbl_exponent_eq [OF assms(1,2,3)])
qed


section \<open>GateMapper in double precision: the ranges of a gate code\<close>

lemma longitudeToGate_dbl_fields:
  "longitudeToGate_dbl lon =
    \<lparr> gate = js_index GATE_ORDER (gateIndex_dbl lon),
      line = min (\<lfloor>dbl (posInGate_dbl lon / DEGREES_PER_LINE)\<rfloor> + 1) 6,
      color = min (\<lfloor>dbl (posInLine_dbl lon / DEGREES_PER_COLOR)\<rfloor> + 1) 6,
      tone = min (\<lfloor>dbl (posInColor_dbl lon / dbl DEGREES_PER_TONE)\<rfloor> + 1) 6,
      base = min (\<lfloor>dbl (posInTone_dbl lon / dbl DEGREES_PER_BASE)\<rfloor> + 1) 5,
      longitude = normalize_dbl lon,
      wheelPosition = wheelPos_dbl lon,
      formatted = show_gate (js_index GATE_ORDER (gateIndex_dbl lon)) @ ''.''
        @ show_int (min (\<lfloor>dbl (posInGate_dbl lon / DEGREES_PER_LINE)\<rfloor> + 1) 6) @ ''.''
        @ show_int (min (\<lfloor>dbl (posInLine_dbl lon / DEGREES_PER_COLOR)\<rfloor> + 1) 6) @ ''.''
        @ show_int (min (\<lfloor>dbl (posInColor_dbl lon / dbl DEGREES_PER_TONE)\<rfloor> + 1) 6) @ ''.''
        @ show_int (min (\<lfloor>dbl (posInTone_dbl lon / dbl DEGREES_PER_BASE)\<rfloor> + 1) 5) \<rparr>"
  unfolding longitudeToGate_dbl_def Let_def posInTone_dbl_def posInColor_dbl_def
    posInLine_dbl_def posInGate_dbl_def gateIndex_dbl_def wheelPos_dbl_def normalize_dbl_def
  by (rule refl)

lemma dbl_literals:
  "dbl HD_OFFSET = 8293660188779479 / 2 ^ 47"
  "dbl DEGREES_PER_TONE = 7505999475027619 / 2 ^ 58"
  "dbl DEGREES_PER_BASE = 6004799118853493 / 2 ^ 60"
  "dbl 0.0001 = 7378697629483821 / 2 ^ 66"
proof -
  show "dbl HD_OFFSET = 8293660188779479 / 2 ^ 47"
    unfolding HD_OFFSET_def
    by (rule dbl_eqI [where e = 5 and n = 8293660188779479])
      (simp_all add: pow2_def round_even_def)
  show "dbl DEGREES_PER_TONE = 7505999475027619 / 2 ^ 58"
    unfolding DEGREES_PER_TONE_def
    by (rule dbl_eqI [where e = "- 6" and n = 7505999475027619])
      (simp_all add: pow2_def round_even_def)
  show "dbl DEGREES_PER_BASE = 6004799118853493 / 2 ^ 60"
    unfolding DEGREES_PER_BASE_def
    by (rule dbl_eqI [where e = "- 8" and n = 6004799118853493])
      (simp_all add: pow2_def round_even_def)
  show "dbl 0.0001 = 7378697629483821 / 2 ^ 66"
    by (rule dbl_eqI [where e = "- 14" and n = 7378697629483821])
      (simp_all add: pow2_def round_even_def)
qed

lemma js_rem_small:
  assumes "0 \<le> a" and "a < b"
  shows "js_rem a b = a"
proof -
  have "0 \<le> a / b" "a / b < 1" using assms by simp_all
  then have "\<lfloor>a / b\<rfloor> = 0" by (simp add: floor_eq_iff)
  then show ?thesis using \<open>0 \<le> a / b\<close> by (simp add: js_rem_def js_trunc_def)
qed

lemma grid_combine:
  fixes y c u :: real
  assumes "y = of_int N * u" and "c = of_int C * u"
  shows "y + c * of_int q = of_int (N + C * q) * u"
  by (simp add: assms algebra_simps)

lemma normalize_dbl_range: "0 \<le> normalize_dbl x" "normalize_dbl x < 360"
proof -
  have "- 360 < js_rem x 360" by (rule js_rem_abs_bound) simp
  then have "0 \<le> js_rem x 360 + 360" by simp
  then have nn: "0 \<le> dbl (js_rem x 360 + 360)" by (rule dbl_nonneg)
  show "0 \<le> normalize_dbl x" unfolding normalize_dbl_def using nn by (rule js_rem_nonneg) simp
  show "normalize_dbl x < 360" unfolding normalize_dbl_def using nn by (rule js_rem_nonneg) simp
qed

lemma wheelPos_dbl_alt:
  "wheelPos_dbl lon = js_rem (dbl (normalize_dbl lon + dbl HD_OFFSET)) 360"
  by (simp only: wheelPos_dbl_def normalize_dbl_def)

lemma offset_bounds: "58 < dbl HD_OFFSET" "dbl HD_OFFSET < 59"
  by (simp_all add: dbl_literals)

lemma wheelPos_dbl_nonneg: "0 \<le> wheelPos_dbl lon"
proof -
  have "0 \<le> normalize_dbl lon + dbl HD_OFFSET"
    using normalize_dbl_range(1) [of lon] offset_bounds(1) by linarith
  then have "0 \<le> dbl (normalize_dbl lon + dbl HD_OFFSET)" by (rule dbl_nonneg)
  then show ?thesis unfolding wheelPos_dbl_alt by (rule js_rem_nonneg) simp
qed

lemma wheelPos_dbl_less: "wheelPos_dbl lon < 360"
proof -
  have "0 \<le> normalize_dbl lon + dbl HD_OFFSET"
    using normalize_dbl_range(1) [of lon] offset_bounds(1) by linarith
  then have "0 \<le> dbl (normalize_dbl lon + dbl HD_OFFSET)" by (rule dbl_nonneg)
  then show ?thesis unfolding wheelPos_dbl_alt by (rule js_rem_nonneg) simp
qed

text \<open>The wheel position is a double below 360, hence at most the largest such double.\<close>

lemma wheelPos_dbl_le: "wheelPos_dbl lon \<le> 360 - pow2 (- 44)"
proof -
  define s where "s = normalize_dbl lon + dbl HD_OFFSET"
  define y where "y = dbl s"
  have s: "58 < s" "s < 419"
    using normalize_dbl_range [of lon] offset_bounds by (simp_all add: s_def)
  have w: "wheelPos_dbl lon = js_rem y 360" by (simp only: wheelPos_dbl_alt s_def y_def)
  have y0: "0 \<le> y" unfolding y_def using s(1) by (intro dbl_nonneg) simp
  have small: "pow2 (- 44) \<le> 104" by (simp add: pow2_def)
  show ?thesis
  proof (cases "s \<le> 256")
    case True
    have "y \<le> 256" unfolding y_def
      by (rule dbl_le_grid [where m = 256 and k = 0 and e = 8])
        (use True s in \<open>simp_all add: pow2_def\<close>)
    then have "js_rem y 360 = y" using y0 by (intro js_rem_small) simp_all
    then show ?thesis using \<open>y \<le> 256\<close> small by (simp add: w)
  next
    case False
    then have e: "dbl_exponent s = 8"
      using s by (intro dbl_exponent_eq) (simp_all add: pow2_def)
    have "s \<noteq> 0" using s by simp
    then have "y = of_int (round_even (s / pow2 (- 44))) * pow2 (- 44)"
      by (simp add: y_def dbl_def ulp_def e)
    then obtain N :: int where N: "y = of_int N * pow2 (- 44)" by blast
    obtain q :: int where q: "js_rem y 360 = y + 360 * of_int q"
      using js_rem_congruent by blast
    have p: "pow2 (- 44) * 2 ^ 44 = 1" by (simp add: pow2_def)
    have c360: "360 = of_int (360 * 2 ^ 44) * pow2 (- 44)" using p by simp
    with N have "y + 360 * of_int q = of_int (N + 360 * 2 ^ 44 * q) * pow2 (- 44)"
      by (rule grid_combine)
    then have W: "js_rem y 360 = of_int (N + 360 * 2 ^ 44 * q) * pow2 (- 44)"
      by (simp only: q)
    have "js_rem y 360 < 360" using y0 by (rule js_rem_nonneg) simp
    then have "js_rem y 360 < of_int (360 * 2 ^ 44) * pow2 (- 44)"
      using c360 by linarith
    then have "of_int (N + 360 * 2 ^ 44 * q) * pow2 (- 44) < of_int (360 * 2 ^ 44) * pow2 (- 44)"
      by (simp only: W)
    then have "(of_int (N + 360 * 2 ^ 44 * q) :: real) < of_int (360 * 2 ^ 44)"
      using pow2_pos [of "- 44"] by (simp only: mult_less_cancel_right_pos)
    then have "N + 360 * 2 ^ 44 * q < 360 * 2 ^ 44" by (simp only: of_int_less_iff)
    then have "N + 360 * 2 ^ 44 * q \<le> 360 * 2 ^ 44 - 1" by simp
    then have "(of_int (N + 360 * 2 ^ 44 * q) :: real) \<le> of_int (360 * 2 ^ 44 - 1)"
      by (simp only: of_int_le_iff)
    then have "of_int (N + 360 * 2 ^ 44 * q) * pow2 (- 44)
        \<le> of_int (360 * 2 ^ 44 - 1) * pow2 (- 44)"
      using pow2_pos [of "- 44"] by (simp only: mult_le_cancel_right_pos)
    also have "\<dots> = 360 - pow2 (- 44)" using p by (simp add: algebra_simps)
    finally show ?thesis by (simp only: w W)
  qed
qed

lemma gateIndex_dbl_range: "0 \<le> gateIndex_dbl lon" "gateIndex_dbl lon \<le> 63"
proof -
  define q where "q = wheelPos_dbl lon / DEGREES_PER_GATE"
  have q0: "0 \<le> q"
    using wheelPos_dbl_nonneg [of lon] by (simp add: q_def DEGREES_PER_GATE_def)
  then have "0 \<le> dbl q" by (rule dbl_nonneg)
  then show "0 \<le> gateIndex_dbl lon" by (simp add: gateIndex_dbl_def q_def)
  have "q \<le> (360 - pow2 (- 44)) / DEGREES_PER_GATE"
    using wheelPos_dbl_le [of lon] by (simp add: q_def DEGREES_PER_GATE_def divide_right_mono)
  also have "\<dots> \<le> 64 - pow2 (- 47)" by (simp add: DEGREES_PER_GATE_def pow2_def)
  finally have qc: "q \<le> 64 - pow2 (- 47)" .
  have "dbl q \<le> 64 - pow2 (- 47)"
  proof (rule dbl_le_grid [where m = "2 ^ 53 - 1" and k = "- 47" and e = 5])
    show "q \<le> 64 - pow2 (- 47)" by (rule qc)
    show "64 - pow2 (- 47) = of_int (2 ^ 53 - 1) * pow2 (- 47)" by (simp add: pow2_def)
    have "q < 64" using qc pow2_pos [of "- 47"] by linarith
    then show "\<bar>q\<bar> < pow2 (5 + 1)" using q0 by (simp add: pow2_def)
  qed simp_all
  then have "dbl q < 64" using pow2_pos [of "- 47"] by linarith
  then have "\<lfloor>dbl q\<rfloor> < 64" by (simp add: floor_less_iff)
  then show "gateIndex_dbl lon \<le> 63" by (simp add: gateIndex_dbl_def q_def)
qed

lemma length_GATE_ORDER: "length GATE_ORDER = 64"
  by (simp add: GATE_ORDER_def)

lemma GATE_ORDER_entries: "g \<in> set GATE_ORDER \<Longrightarrow> 1 \<le> g \<and> g \<le> 64"
  by (auto simp add: GATE_ORDER_def)

lemma gate_dbl_defined:
  "gate (longitudeToGate_dbl lon) = Some (GATE_ORDER ! nat (gateIndex_dbl lon))"
  using gateIndex_dbl_range [of lon]
  by (simp add: longitudeToGate_dbl_fields js_index_def length_GATE_ORDER)

lemma gate_dbl_in_table: "GATE_ORDER ! nat (gateIndex_dbl lon) \<in> set GATE_ORDER"
proof -
  have "nat (gateIndex_dbl lon) < length GATE_ORDER"
    using gateIndex_dbl_range [of lon] by (simp add: length_GATE_ORDER)
  then show ?thesis by (rule nth_mem)
qed

lemma positions_dbl_nonneg:
  "0 \<le> posInGate_dbl lon" "0 \<le> posInLine_dbl lon" "0 \<le> posInColor_dbl lon"
  "0 \<le> posInTone_dbl lon"
proof -
  show g: "0 \<le> posInGate_dbl lon" unfolding posInGate_dbl_def
    using wheelPos_dbl_nonneg by (rule js_rem_nonneg) (simp add: DEGREES_PER_GATE_def)
  show l: "0 \<le> posInLine_dbl lon" unfolding posInLine_dbl_def
    using g by (rule js_rem_nonneg) (simp add: DEGREES_PER_LINE_def)
  show c: "0 \<le> posInColor_dbl lon" unfolding posInColor_dbl_def
    using l by (rule js_rem_nonneg) (simp add: DEGREES_PER_COLOR_def)
  show "0 \<le> posInTone_dbl lon" unfolding posInTone_dbl_def
    using c by (rule js_rem_nonneg) (simp add: dbl_literals)
qed

lemma digit_dbl_range:
  assumes "0 \<le> p" and "0 < step" and "1 \<le> k"
  shows "1 \<le> min (\<lfloor>dbl (p / step)\<rfloor> + 1) (k::int)"
    and "min (\<lfloor>dbl (p / step)\<rfloor> + 1) k \<le> k"
proof -
  have "0 \<le> p / step" using assms by simp
  then have "0 \<le> dbl (p / step)" by (rule dbl_nonneg)
  then have "0 \<le> \<lfloor>dbl (p / step)\<rfloor>" by simp
  then show "1 \<le> min (\<lfloor>dbl (p / step)\<rfloor> + 1) k" using assms(3) by simp
  show "min (\<lfloor>dbl (p / step)\<rfloor> + 1) k \<le> k" by simp
qed

text \<open>
  C1. For every longitude the 64-arc index that \<^verbatim>\<open>longitudeToGate\<close> computes in double
  precision lies in 0..63, so the gate field is a defined entry of the 64-element table
  \<open>GATE_ORDER\<close>, never \<^verbatim>\<open>undefined\<close>. The source has no clamp on the index and needs
  none: the wheel position is a double below 360, hence at most \<open>360 - 2 ^ (- 44)\<close>, and
  its quotient by 5.625 rounds to at most \<open>64 - 2 ^ (- 47)\<close>, never to 64.
\<close>

theorem gateIndex_dbl_in_table:
  "0 \<le> gateIndex_dbl lon \<and> gateIndex_dbl lon \<le> 63
   \<and> gate (longitudeToGate_dbl lon) = Some (GATE_ORDER ! nat (gateIndex_dbl lon))
   \<and> GATE_ORDER ! nat (gateIndex_dbl lon) \<in> set GATE_ORDER"
  using gateIndex_dbl_range [of lon] gate_dbl_defined [of lon] gate_dbl_in_table [of lon]
  by simp

text \<open>
  C7. For every longitude the gate code computed in double precision has gate in 1..64,
  line, color and tone in 1..6, base in 1..5, and both the stored normalized longitude and
  the wheel position in [0, 360).
\<close>

theorem gate_code_dbl_ranges:
  "(\<exists>g. gate (longitudeToGate_dbl lon) = Some g \<and> 1 \<le> g \<and> g \<le> 64)
   \<and> 1 \<le> line (longitudeToGate_dbl lon) \<and> line (longitudeToGate_dbl lon) \<le> 6
   \<and> 1 \<le> color (longitudeToGate_dbl lon) \<and> color (longitudeToGate_dbl lon) \<le> 6
   \<and> 1 \<le> tone (longitudeToGate_dbl lon) \<and> tone (longitudeToGate_dbl lon) \<le> 6
   \<and> 1 \<le> base (longitudeToGate_dbl lon) \<and> base (longitudeToGate_dbl lon) \<le> 5
   \<and> 0 \<le> longitude (longitudeToGate_dbl lon) \<and> longitude (longitudeToGate_dbl lon) < 360
   \<and> 0 \<le> wheelPosition (longitudeToGate_dbl lon)
   \<and> wheelPosition (longitudeToGate_dbl lon) < 360"
proof -
  have "1 \<le> GATE_ORDER ! nat (gateIndex_dbl lon) \<and> GATE_ORDER ! nat (gateIndex_dbl lon) \<le> 64"
    using gate_dbl_in_table by (rule GATE_ORDER_entries)
  then have g: "\<exists>g. gate (longitudeToGate_dbl lon) = Some g \<and> 1 \<le> g \<and> g \<le> 64"
    by (simp add: gate_dbl_defined)
  have tone_pos: "0 < dbl DEGREES_PER_TONE" and base_pos: "0 < dbl DEGREES_PER_BASE"
    by (simp_all add: dbl_literals)
  have l: "1 \<le> line (longitudeToGate_dbl lon)" "line (longitudeToGate_dbl lon) \<le> 6"
    using digit_dbl_range [OF positions_dbl_nonneg(1) [of lon], of DEGREES_PER_LINE 6]
    by (simp_all add: longitudeToGate_dbl_fields DEGREES_PER_LINE_def)
  have c: "1 \<le> color (longitudeToGate_dbl lon)" "color (longitudeToGate_dbl lon) \<le> 6"
    using digit_dbl_range [OF positions_dbl_nonneg(2) [of lon], of DEGREES_PER_COLOR 6]
    by (simp_all add: longitudeToGate_dbl_fields DEGREES_PER_COLOR_def)
  have t: "1 \<le> tone (longitudeToGate_dbl lon)" "tone (longitudeToGate_dbl lon) \<le> 6"
    using digit_dbl_range [OF positions_dbl_nonneg(3) [of lon] tone_pos, of 6]
    by (simp_all add: longitudeToGate_dbl_fields)
  have b: "1 \<le> base (longitudeToGate_dbl lon)" "base (longitudeToGate_dbl lon) \<le> 5"
    using digit_dbl_range [OF positions_dbl_nonneg(4) [of lon] base_pos, of 5]
    by (simp_all add: longitudeToGate_dbl_fields)
  have n: "0 \<le> longitude (longitudeToGate_dbl lon)" "longitude (longitudeToGate_dbl lon) < 360"
    by (simp_all add: longitudeToGate_dbl_fields normalize_dbl_range)
  have w: "0 \<le> wheelPosition (longitudeToGate_dbl lon)"
    "wheelPosition (longitudeToGate_dbl lon) < 360"
    by (simp_all add: longitudeToGate_dbl_fields wheelPos_dbl_nonneg wheelPos_dbl_less)
  show ?thesis using g l c t b n w by blast
qed

text \<open>
  The double-precision embedding at three inputs. At longitude 0 it gives 25.3.6.1.5, as
  the exact embedding does. At the double nearest to 1.07 the rounded sums give wheel
  position 59.99999999999999 and line 4 (25.4.6.6.5); exact arithmetic on the same input
  gives a wheel position just above 60 and line 5. At the double nearest to -418.93 the
  rounded sums give wheel position 0 and gate 41; exact arithmetic on the same input gives
  a wheel position just below 360 and gate 60.
\<close>

lemma sample_doubles:
  "dbl 1.07 = (4818851601286431 / 4503599627370496)"
  "dbl (- 418.93) = (- (7369894499587195 / 17592186044416))"
proof -
  show "dbl 1.07 = (4818851601286431 / 4503599627370496)"
    by (rule dbl_eqI [where e = 0 and n = 4818851601286431]) (simp_all add: pow2_def round_even_def)
  show "dbl (- 418.93) = (- (7369894499587195 / 17592186044416))"
    by (rule dbl_eqI [where e = 8 and n = "- 7369894499587195"]) (simp_all add: pow2_def round_even_def)
qed

lemma gate_code_dbl_at_0:
  "gateIndex_dbl 0 = 10
   \<and> gate (longitudeToGate_dbl 0) = Some 25
   \<and> line (longitudeToGate_dbl 0) = 3 \<and> color (longitudeToGate_dbl 0) = 6
   \<and> tone (longitudeToGate_dbl 0) = 1 \<and> base (longitudeToGate_dbl 0) = 5
   \<and> longitude (longitudeToGate_dbl 0) = 0
   \<and> wheelPosition (longitudeToGate_dbl 0) = (8293660188779479 / 140737488355328)"
proof -
  have a1: "js_rem 0 360 + 360 = 360" by (simp add: js_rem_def js_trunc_def)
  have b1: "dbl 360 = 360"
    by (rule dbl_eqI [where e = 8 and n = 6333186975989760]) (simp_all add: pow2_def round_even_def)
  have c1: "js_rem 360 360 = 0" by (simp add: js_rem_def js_trunc_def)
  have n: "normalize_dbl 0 = 0" unfolding normalize_dbl_def by (simp only: a1 b1 c1)
  have a2: "0 + dbl HD_OFFSET = (8293660188779479 / 140737488355328)" by (simp add: dbl_literals)
  have b2: "dbl (8293660188779479 / 140737488355328) = (8293660188779479 / 140737488355328)"
    by (rule dbl_eqI [where e = 5 and n = 8293660188779479]) (simp_all add: pow2_def round_even_def)
  have c2: "js_rem (8293660188779479 / 140737488355328) 360 = (8293660188779479 / 140737488355328)" by (simp add: js_rem_def js_trunc_def)
  have w: "wheelPos_dbl 0 = (8293660188779479 / 140737488355328)" unfolding wheelPos_dbl_alt by (simp only: n a2 b2 c2)
  have a3: "(8293660188779479 / 140737488355328) / DEGREES_PER_GATE = (8293660188779479 / 791648371998720)" by (simp add: DEGREES_PER_GATE_def)
  have b3: "dbl (8293660188779479 / 791648371998720) = (5897713912020963 / 562949953421312)"
    by (rule dbl_eqI [where e = 3 and n = 5897713912020963]) (simp_all add: pow2_def round_even_def)
  have f3: "\<lfloor>(5897713912020963 / 562949953421312) :: real\<rfloor> = 10" by simp
  have gi: "gateIndex_dbl 0 = 10" unfolding gateIndex_dbl_def by (simp only: w a3 b3 f3)
  have pg: "posInGate_dbl 0 = (377176468792279 / 140737488355328)" unfolding posInGate_dbl_def w by (simp add: js_rem_def js_trunc_def DEGREES_PER_GATE_def)
  have a4: "(377176468792279 / 140737488355328) / DEGREES_PER_LINE = (377176468792279 / 131941395333120)" by (simp add: DEGREES_PER_LINE_def)
  have b4: "dbl (377176468792279 / 131941395333120) = (1609286266847057 / 562949953421312)"
    by (rule dbl_eqI [where e = 1 and n = 6437145067388228]) (simp_all add: pow2_def round_even_def)
  have f4: "min (\<lfloor>(1609286266847057 / 562949953421312) :: real\<rfloor> + 1) 6 = 3" by simp
  have pl: "posInLine_dbl 0 = (113293678126039 / 140737488355328)" unfolding posInLine_dbl_def pg by (simp add: js_rem_def js_trunc_def DEGREES_PER_LINE_def)
  have a5: "(113293678126039 / 140737488355328) / DEGREES_PER_COLOR = (113293678126039 / 21990232555520)" by (simp add: DEGREES_PER_COLOR_def)
  have b5: "dbl (113293678126039 / 21990232555520) = (5800636320053197 / 1125899906842624)"
    by (rule dbl_eqI [where e = 2 and n = 5800636320053197]) (simp_all add: pow2_def round_even_def)
  have f5: "min (\<lfloor>(5800636320053197 / 1125899906842624) :: real\<rfloor> + 1) 6 = 6" by simp
  have pc: "posInColor_dbl 0 = (3342515348439 / 140737488355328)" unfolding posInColor_dbl_def pl by (simp add: js_rem_def js_trunc_def DEGREES_PER_COLOR_def)
  have a6: "(3342515348439 / 140737488355328) / dbl DEGREES_PER_TONE = (6845471433603072 / 7505999475027619)" by (simp add: dbl_literals)
  have b6: "dbl (6845471433603072 / 7505999475027619) = (4107282807588623 / 4503599627370496)"
    by (rule dbl_eqI [where e = "- 1" and n = 8214565615177246]) (simp_all add: pow2_def round_even_def)
  have f6: "min (\<lfloor>(4107282807588623 / 4503599627370496) :: real\<rfloor> + 1) 6 = 1" by simp
  have pt: "posInTone_dbl 0 = (3342515348439 / 140737488355328)" unfolding posInTone_dbl_def pc by (simp add: js_rem_def js_trunc_def dbl_literals)
  have a7: "(3342515348439 / 140737488355328) / dbl DEGREES_PER_BASE = (27381885734412288 / 6004799118853493)" by (simp add: dbl_literals)
  have b7: "dbl (27381885734412288 / 6004799118853493) = (2567051951892477 / 562949953421312)"
    by (rule dbl_eqI [where e = 2 and n = 5134103903784954]) (simp_all add: pow2_def round_even_def)
  have f7: "min (\<lfloor>(2567051951892477 / 562949953421312) :: real\<rfloor> + 1) 5 = 5" by simp
  have g: "js_index GATE_ORDER 10 = Some 25" by (simp add: js_index_def GATE_ORDER_def)
  show ?thesis
    unfolding longitudeToGate_dbl_fields gate_code.simps
    by (simp only: gi g n w pg pl pc pt a4 b4 f4 a5 b5 f5 a6 b6 f6 a7 b7 f7 simp_thms)
qed

lemma gate_code_dbl_at_1_07:
  "gateIndex_dbl (dbl 1.07) = 10
   \<and> gate (longitudeToGate_dbl (dbl 1.07)) = Some 25
   \<and> line (longitudeToGate_dbl (dbl 1.07)) = 4 \<and> color (longitudeToGate_dbl (dbl 1.07)) = 6
   \<and> tone (longitudeToGate_dbl (dbl 1.07)) = 6 \<and> base (longitudeToGate_dbl (dbl 1.07)) = 5
   \<and> longitude (longitudeToGate_dbl (dbl 1.07)) = (18823639067525 / 17592186044416)
   \<and> wheelPosition (longitudeToGate_dbl (dbl 1.07)) = (8444249301319679 / 140737488355328)"
proof -
  have a1: "js_rem (4818851601286431 / 4503599627370496) 360 + 360 = (1626114717454664991 / 4503599627370496)" by (simp add: js_rem_def js_trunc_def)
  have b1: "dbl (1626114717454664991 / 4503599627370496) = (6352010615057285 / 17592186044416)"
    by (rule dbl_eqI [where e = 8 and n = 6352010615057285]) (simp_all add: pow2_def round_even_def)
  have c1: "js_rem (6352010615057285 / 17592186044416) 360 = (18823639067525 / 17592186044416)" by (simp add: js_rem_def js_trunc_def)
  have n: "normalize_dbl (4818851601286431 / 4503599627370496) = (18823639067525 / 17592186044416)" unfolding normalize_dbl_def by (simp only: a1 b1 c1)
  have a2: "(18823639067525 / 17592186044416) + dbl HD_OFFSET = (8444249301319679 / 140737488355328)" by (simp add: dbl_literals)
  have b2: "dbl (8444249301319679 / 140737488355328) = (8444249301319679 / 140737488355328)"
    by (rule dbl_eqI [where e = 5 and n = 8444249301319679]) (simp_all add: pow2_def round_even_def)
  have c2: "js_rem (8444249301319679 / 140737488355328) 360 = (8444249301319679 / 140737488355328)" by (simp add: js_rem_def js_trunc_def)
  have w: "wheelPos_dbl (4818851601286431 / 4503599627370496) = (8444249301319679 / 140737488355328)" unfolding wheelPos_dbl_alt by (simp only: n a2 b2 c2)
  have a3: "(8444249301319679 / 140737488355328) / DEGREES_PER_GATE = (8444249301319679 / 791648371998720)" by (simp add: DEGREES_PER_GATE_def)
  have b3: "dbl (8444249301319679 / 791648371998720) = (6004799503160661 / 562949953421312)"
    by (rule dbl_eqI [where e = 3 and n = 6004799503160661]) (simp_all add: pow2_def round_even_def)
  have f3: "\<lfloor>(6004799503160661 / 562949953421312) :: real\<rfloor> = 10" by simp
  have gi: "gateIndex_dbl (4818851601286431 / 4503599627370496) = 10" unfolding gateIndex_dbl_def by (simp only: w a3 b3 f3)
  have pg: "posInGate_dbl (4818851601286431 / 4503599627370496) = (527765581332479 / 140737488355328)" unfolding posInGate_dbl_def w by (simp add: js_rem_def js_trunc_def DEGREES_PER_GATE_def)
  have a4: "(527765581332479 / 140737488355328) / DEGREES_PER_LINE = (527765581332479 / 131941395333120)" by (simp add: DEGREES_PER_LINE_def)
  have b4: "dbl (527765581332479 / 131941395333120) = (9007199254740975 / 2251799813685248)"
    by (rule dbl_eqI [where e = 1 and n = 9007199254740975]) (simp_all add: pow2_def round_even_def)
  have f4: "min (\<lfloor>(9007199254740975 / 2251799813685248) :: real\<rfloor> + 1) 6 = 4" by simp
  have pl: "posInLine_dbl (4818851601286431 / 4503599627370496) = (131941395333119 / 140737488355328)" unfolding posInLine_dbl_def pg by (simp add: js_rem_def js_trunc_def DEGREES_PER_LINE_def)
  have a5: "(131941395333119 / 140737488355328) / DEGREES_PER_COLOR = (131941395333119 / 21990232555520)" by (simp add: DEGREES_PER_COLOR_def)
  have b5: "dbl (131941395333119 / 21990232555520) = (6755399441055693 / 1125899906842624)"
    by (rule dbl_eqI [where e = 2 and n = 6755399441055693]) (simp_all add: pow2_def round_even_def)
  have f5: "min (\<lfloor>(6755399441055693 / 1125899906842624) :: real\<rfloor> + 1) 6 = 6" by simp
  have pc: "posInColor_dbl (4818851601286431 / 4503599627370496) = (21990232555519 / 140737488355328)" unfolding posInColor_dbl_def pl by (simp add: js_rem_def js_trunc_def DEGREES_PER_COLOR_def)
  have a6: "(21990232555519 / 140737488355328) / dbl DEGREES_PER_TONE = (45035996273702912 / 7505999475027619)" by (simp add: dbl_literals)
  have b6: "dbl (45035996273702912 / 7505999475027619) = (6755399354586325 / 1125899906842624)"
    by (rule dbl_eqI [where e = 2 and n = 6755399354586325]) (simp_all add: pow2_def round_even_def)
  have f6: "min (\<lfloor>(6755399354586325 / 1125899906842624) :: real\<rfloor> + 1) 6 = 6" by simp
  have pt: "posInTone_dbl (4818851601286431 / 4503599627370496) = (7505998898564817 / 288230376151711744)" unfolding posInTone_dbl_def pc by (simp add: js_rem_def js_trunc_def dbl_literals)
  have a7: "(7505998898564817 / 288230376151711744) / dbl DEGREES_PER_BASE = (4289142227751324 / 857828445550499)" by (simp add: dbl_literals)
  have b7: "dbl (4289142227751324 / 857828445550499) = (5629499534211583 / 1125899906842624)"
    by (rule dbl_eqI [where e = 2 and n = 5629499534211583]) (simp_all add: pow2_def round_even_def)
  have f7: "min (\<lfloor>(5629499534211583 / 1125899906842624) :: real\<rfloor> + 1) 5 = 5" by simp
  have g: "js_index GATE_ORDER 10 = Some 25" by (simp add: js_index_def GATE_ORDER_def)
  show ?thesis
    unfolding sample_doubles longitudeToGate_dbl_fields gate_code.simps
    by (simp only: gi g n w pg pl pc pt a4 b4 f4 a5 b5 f5 a6 b6 f6 a7 b7 f7 simp_thms)
qed

lemma gate_code_dbl_at_minus_418_93:
  "gateIndex_dbl (dbl (- 418.93)) = 0
   \<and> gate (longitudeToGate_dbl (dbl (- 418.93))) = Some 41
   \<and> line (longitudeToGate_dbl (dbl (- 418.93))) = 1 \<and> color (longitudeToGate_dbl (dbl (- 418.93))) = 1
   \<and> tone (longitudeToGate_dbl (dbl (- 418.93))) = 1 \<and> base (longitudeToGate_dbl (dbl (- 418.93))) = 1
   \<and> longitude (longitudeToGate_dbl (dbl (- 418.93))) = (5296479452392325 / 17592186044416)
   \<and> wheelPosition (longitudeToGate_dbl (dbl (- 418.93))) = 0"
proof -
  have a1: "js_rem (- (7369894499587195 / 17592186044416)) 360 + 360 = (5296479452392325 / 17592186044416)" by (simp add: js_rem_def js_trunc_def)
  have b1: "dbl (5296479452392325 / 17592186044416) = (5296479452392325 / 17592186044416)"
    by (rule dbl_eqI [where e = 8 and n = 5296479452392325]) (simp_all add: pow2_def round_even_def)
  have c1: "js_rem (5296479452392325 / 17592186044416) 360 = (5296479452392325 / 17592186044416)" by (simp add: js_rem_def js_trunc_def)
  have n: "normalize_dbl (- (7369894499587195 / 17592186044416)) = (5296479452392325 / 17592186044416)" unfolding normalize_dbl_def by (simp only: a1 b1 c1)
  have a2: "(5296479452392325 / 17592186044416) + dbl HD_OFFSET = (50665495807918079 / 140737488355328)" by (simp add: dbl_literals)
  have b2: "dbl (50665495807918079 / 140737488355328) = 360"
    by (rule dbl_eqI [where e = 8 and n = 6333186975989760]) (simp_all add: pow2_def round_even_def)
  have c2: "js_rem 360 360 = 0" by (simp add: js_rem_def js_trunc_def)
  have w: "wheelPos_dbl (- (7369894499587195 / 17592186044416)) = 0" unfolding wheelPos_dbl_alt by (simp only: n a2 b2 c2)
  have a3: "0 / DEGREES_PER_GATE = 0" by (simp add: DEGREES_PER_GATE_def)
  have b3: "dbl 0 = 0" by (rule dbl_zero)
  have f3: "\<lfloor>0 :: real\<rfloor> = 0" by simp
  have gi: "gateIndex_dbl (- (7369894499587195 / 17592186044416)) = 0" unfolding gateIndex_dbl_def by (simp only: w a3 b3 f3)
  have pg: "posInGate_dbl (- (7369894499587195 / 17592186044416)) = 0" unfolding posInGate_dbl_def w by (simp add: js_rem_def js_trunc_def DEGREES_PER_GATE_def)
  have a4: "0 / DEGREES_PER_LINE = 0" by (simp add: DEGREES_PER_LINE_def)
  have b4: "dbl 0 = 0" by (rule dbl_zero)
  have f4: "min (\<lfloor>0 :: real\<rfloor> + 1) 6 = 1" by simp
  have pl: "posInLine_dbl (- (7369894499587195 / 17592186044416)) = 0" unfolding posInLine_dbl_def pg by (simp add: js_rem_def js_trunc_def DEGREES_PER_LINE_def)
  have a5: "0 / DEGREES_PER_COLOR = 0" by (simp add: DEGREES_PER_COLOR_def)
  have b5: "dbl 0 = 0" by (rule dbl_zero)
  have f5: "min (\<lfloor>0 :: real\<rfloor> + 1) 6 = 1" by simp
  have pc: "posInColor_dbl (- (7369894499587195 / 17592186044416)) = 0" unfolding posInColor_dbl_def pl by (simp add: js_rem_def js_trunc_def DEGREES_PER_COLOR_def)
  have a6: "0 / dbl DEGREES_PER_TONE = 0" by (simp add: dbl_literals)
  have b6: "dbl 0 = 0" by (rule dbl_zero)
  have f6: "min (\<lfloor>0 :: real\<rfloor> + 1) 6 = 1" by simp
  have pt: "posInTone_dbl (- (7369894499587195 / 17592186044416)) = 0" unfolding posInTone_dbl_def pc by (simp add: js_rem_def js_trunc_def dbl_literals)
  have a7: "0 / dbl DEGREES_PER_BASE = 0" by (simp add: dbl_literals)
  have b7: "dbl 0 = 0" by (rule dbl_zero)
  have f7: "min (\<lfloor>0 :: real\<rfloor> + 1) 5 = 1" by simp
  have g: "js_index GATE_ORDER 0 = Some 41" by (simp add: js_index_def GATE_ORDER_def)
  show ?thesis
    unfolding sample_doubles longitudeToGate_dbl_fields gate_code.simps
    by (simp only: gi g n w pg pl pc pt a4 b4 f4 a5 b5 f5 a6 b6 f6 a7 b7 f7 simp_thms)
qed


lemma exact_embedding_at_sample_doubles:
  "wheelPos (dbl 1.07) = (6755399441055744007 / 112589990684262400)"
  "line (longitudeToGate (dbl 1.07)) = 5"
  "wheelPos (dbl (- 418.93)) = (158329674399743997 / 439804651110400)"
  "gate (longitudeToGate (dbl (- 418.93))) = Some 60"
proof -
  show w1: "wheelPos (dbl 1.07) = (6755399441055744007 / 112589990684262400)"
    unfolding sample_doubles by (simp add: wheelPos_def js_rem_def js_trunc_def HD_OFFSET_def)
  have g1: "posInGate (dbl 1.07) = (422212465065984007 / 112589990684262400)"
    unfolding posInGate_def w1 by (simp add: js_rem_def js_trunc_def DEGREES_PER_GATE_def)
  show "line (longitudeToGate (dbl 1.07)) = 5"
    unfolding longitudeToGate_fields gate_code.simps g1 by (simp add: DEGREES_PER_LINE_def)
  show w2: "wheelPos (dbl (- 418.93)) = (158329674399743997 / 439804651110400)"
    unfolding sample_doubles by (simp add: wheelPos_def js_rem_def js_trunc_def HD_OFFSET_def)
  show "gate (longitudeToGate (dbl (- 418.93))) = Some 60"
    unfolding longitudeToGate_fields gate_code.simps gateIndex_def w2
    by (simp add: DEGREES_PER_GATE_def js_index_def GATE_ORDER_def)
qed


section \<open>DesignEpochSolver in double precision: targets a whole turn apart\<close>













end
